theory Spec2Isabelle
  imports Main "HOL-Library.Sublist"
begin

section \<open>JavaScript values\<close>

text \<open>
  The request layer of \<^verbatim>\<open>api.service.js\<close> works on untyped JavaScript values: the
  properties object handed to a request function, the body of a server response and the
  reason of a rejected promise. They are modelled as trees. An object is the list of its
  own enumerable properties in the order \<^verbatim>\<open>Object.keys\<close> lists them; a property
  is looked up by name and the first entry of a name counts. Numbers are the
  integer-valued ones (fractions, NaN and the infinities are outside the model).
  Error objects are objects with a \<^verbatim>\<open>name\<close> and a \<^verbatim>\<open>message\<close> property.
\<close>

datatype jsval =
    JUndefined
  | JNull
  | JBool bool
  | JNum int
  | JStr string
  | JArr "jsval list"
  | JObj "(string \<times> jsval) list"

text \<open>Truthiness, as \<^verbatim>\<open>if (v)\<close>, \<^verbatim>\<open>v && w\<close> and \<^verbatim>\<open>v || w\<close> read a value.\<close>

fun truthy :: "jsval \<Rightarrow> bool" where
  "truthy JUndefined = False"
| "truthy JNull = False"
| "truthy (JBool b) = b"
| "truthy (JNum n) = (n \<noteq> 0)"
| "truthy (JStr s) = (s \<noteq> [])"
| "truthy (JArr xs) = True"
| "truthy (JObj ps) = True"

definition js_or :: "jsval \<Rightarrow> jsval \<Rightarrow> jsval" where
  "js_or a b = (if truthy a then a else b)"

definition js_and :: "jsval \<Rightarrow> jsval \<Rightarrow> jsval" where
  "js_and a b = (if truthy a then b else a)"

text \<open>A destructuring default \<^verbatim>\<open>{ x = d }\<close> applies to \<^verbatim>\<open>undefined\<close> only.\<close>

definition dflt :: "jsval \<Rightarrow> jsval \<Rightarrow> jsval" where
  "dflt v d = (if v = JUndefined then d else v)"

definition nullish :: "jsval \<Rightarrow> bool" where
  "nullish v = (v = JUndefined \<or> v = JNull)"

text \<open>
  \<^verbatim>\<open>v.k\<close> for a receiver that is neither \<^verbatim>\<open>null\<close> nor \<^verbatim>\<open>undefined\<close>, at the
  property names this file reads (\<^verbatim>\<open>status\<close>, \<^verbatim>\<open>file\<close>, \<^verbatim>\<open>dir\<close>, ...): none of
  them is a property of a built-in prototype, so a primitive or an array answers
  \<^verbatim>\<open>undefined\<close>. On \<^verbatim>\<open>null\<close> and \<^verbatim>\<open>undefined\<close> the access throws a TypeError;
  every function below tests for that before it reads.
\<close>

fun js_get :: "jsval \<Rightarrow> string \<Rightarrow> jsval" where
  "js_get (JObj ps) k = (case map_of ps k of Some v \<Rightarrow> v | None \<Rightarrow> JUndefined)"
| "js_get v k = JUndefined"

text \<open>
  \<^verbatim>\<open>a === b\<close> where one side is a literal or a constant of the module and the other
  comes from a caller or a parsed response: primitives are compared by value, and an object
  or an array is never the same object as the constant.
\<close>

fun is_primitive :: "jsval \<Rightarrow> bool" where
  "is_primitive (JArr xs) = False"
| "is_primitive (JObj ps) = False"
| "is_primitive v = True"

definition strict_eq :: "jsval \<Rightarrow> jsval \<Rightarrow> bool" where
  "strict_eq a b = (is_primitive a \<and> a = b)"

subsection \<open>Conversion to a string\<close>

definition digit_char :: "nat \<Rightarrow> char" where
  "digit_char d = ''0123456789'' ! d"

fun show_nat :: "nat \<Rightarrow> string" where
  "show_nat n = (if n < 10 then [digit_char n] else show_nat (n div 10) @ [digit_char (n mod 10)])"

definition show_int :: "int \<Rightarrow> string" where
  "show_int i = (if i < 0 then CHR ''-'' # show_nat (nat (- i)) else show_nat (nat i))"

text \<open>\<^verbatim>\<open>Array.prototype.join\<close> on strings.\<close>

fun js_join :: "string \<Rightarrow> string list \<Rightarrow> string" where
  "js_join sep [] = []"
| "js_join sep [s] = s"
| "js_join sep (s # t # ss) = s @ sep @ js_join sep (t # ss)"

text \<open>
  The string a template literal or a concatenation with a string makes of a value. An
  array joins its elements with a comma, \<^verbatim>\<open>null\<close> and \<^verbatim>\<open>undefined\<close> elements
  as the empty string; a plain object is \<^verbatim>\<open>[object Object]\<close>.
\<close>

fun to_string :: "jsval \<Rightarrow> string" where
  "to_string JUndefined = ''undefined''"
| "to_string JNull = ''null''"
| "to_string (JBool b) = (if b then ''true'' else ''false'')"
| "to_string (JNum n) = show_int n"
| "to_string (JStr s) = s"
| "to_string (JArr xs) =
     js_join '','' (map (\<lambda>x. if x = JUndefined \<or> x = JNull then [] else to_string x) xs)"
| "to_string (JObj ps) = ''[object Object]''"

definition array_join :: "string \<Rightarrow> jsval list \<Rightarrow> string" where
  "array_join sep xs =
     js_join sep (map (\<lambda>x. if x = JUndefined \<or> x = JNull then [] else to_string x) xs)"

subsection \<open>Error objects\<close>

text \<open>
  An error object is represented by the two properties a read finds on it. The text of a
  TypeError is the engine's own; the strings below follow V8's wording without its
  quotation marks, and no theorem of this file depends on them.
\<close>

definition new_Error :: "string \<Rightarrow> jsval" where
  "new_Error m = JObj [(''name'', JStr ''Error''), (''message'', JStr m)]"

definition new_TypeError :: "string \<Rightarrow> jsval" where
  "new_TypeError m = JObj [(''name'', JStr ''TypeError''), (''message'', JStr m)]"

section \<open>URL builder\<close>

text \<open>
  \<^verbatim>\<open>getBaseUrl(container, platform = 'filerobot')\<close> and
  \<^verbatim>\<open>getSecretHeaderName(platform = 'filerobot')\<close>. A parameter default applies
  when the argument is \<^verbatim>\<open>undefined\<close>.
\<close>

definition getBaseUrl :: "jsval \<Rightarrow> jsval \<Rightarrow> string" where
  "getBaseUrl container platform0 =
     (let platform = dflt platform0 (JStr ''filerobot'') in
      if strict_eq platform (JStr ''filerobot'')
      then ''https://api.filerobot.com/'' @ to_string container @ ''/v3/''
      else ''https://'' @ to_string container @ ''.api.airstore.io/v1/'')"

definition getSecretHeaderName :: "jsval \<Rightarrow> string" where
  "getSecretHeaderName platform0 =
     (let platform = dflt platform0 (JStr ''filerobot'') in
      if strict_eq platform (JStr ''filerobot'') then ''X-Filerobot-Key''
      else ''X-Airstore-Secret-Key'')"

section \<open>Transport\<close>

text \<open>
  \<^verbatim>\<open>send\<close> hands the request to axios and maps the answer with
  \<^verbatim>\<open>({ data = {} }) => data\<close>. What the network does is the environment's choice:
  axios either answers (\<open>Answered d\<close>, with \<open>d\<close> the \<^verbatim>\<open>data\<close> property of its
  response object, \<^verbatim>\<open>undefined\<close> when there is none) or fails with a reason.
\<close>

record request =
  req_url :: jsval
  req_method :: string
  req_data :: jsval
  req_headers :: "(string \<times> jsval) list"

datatype transport = Answered jsval | Failed jsval

definition send_then :: "jsval \<Rightarrow> jsval" where
  "send_then d = dflt d (JObj [])"

text \<open>
  How a promise ends. \<open>Pending\<close> is the promise that is never settled: neither
  \<^verbatim>\<open>resolve\<close> nor \<^verbatim>\<open>reject\<close> is ever called on it.
\<close>

datatype outcome = Resolved jsval | Rejected jsval | Pending

section \<open>Upload: the response handler\<close>

text \<open>
  The callback passed to \<^verbatim>\<open>then\<close> in \<^verbatim>\<open>uploadFiles\<close>. It either calls
  \<^verbatim>\<open>resolve\<close> or \<^verbatim>\<open>reject\<close> of the promise under construction (\<open>Inr\<close>), or
  throws (\<open>Inl\<close>). \<^verbatim>\<open>DUPLICATE_CODE\<close> and \<^verbatim>\<open>REPLACING_DATA_CODE\<close> are imported from
  \<^verbatim>\<open>../config\<close>, which is not among the sources, and are parameters here.
\<close>

datatype settle = Resolve jsval | Reject jsval

definition uploadFiles_then :: "jsval \<Rightarrow> jsval \<Rightarrow> jsval \<Rightarrow> jsval + settle" where
  "uploadFiles_then DUPLICATE_CODE REPLACING_DATA_CODE response =
     (if nullish response
      then Inl (new_TypeError ''Cannot destructure property status of response'')
      else
        let status = dflt (js_get response ''status'') (JStr ''success'');
            files = dflt (js_get response ''files'') (JArr []);
            file = js_get response ''file'';
            upload = dflt (js_get response ''upload'') (JObj [])
        in
          if nullish upload
          then Inl (new_TypeError ''Cannot read properties of null (reading state)'')
          else
            let isDuplicate = strict_eq (js_get upload ''state'') DUPLICATE_CODE;
                isReplacingData = strict_eq (js_get upload ''state'') REPLACING_DATA_CODE
            in
              if strict_eq status (JStr ''success'') \<and> truthy file
              then Inr (Resolve (JArr [JArr [file], JBool isDuplicate, JBool isReplacingData]))
              else if strict_eq status (JStr ''success'') \<and> truthy files
              then Inr (Resolve (JArr [files, JBool isDuplicate, JBool isReplacingData]))
              else if strict_eq status (JStr ''error'')
              then Inl (new_Error (to_string (js_get response ''msg'') @ '' '' @
                                   to_string (js_get response ''hint'')))
              else Inr (Reject response))"

section \<open>Upload: the rejection handler\<close>

text \<open>
  The callback passed to \<^verbatim>\<open>catch\<close>. \<^verbatim>\<open>showAlert\<close> is the caller's function; the
  model records the arguments of each call and takes it to return normally. An exception
  inside the handler (reading \<^verbatim>\<open>error.response\<close> of \<^verbatim>\<open>null\<close>, or calling a
  \<^verbatim>\<open>join\<close> property that is not a function) leaves the handler before \<^verbatim>\<open>showAlert\<close>
  and \<^verbatim>\<open>reject\<close>: the promise of \<^verbatim>\<open>uploadFiles\<close> then stays pending.
\<close>

type_synonym alert = "jsval \<times> jsval \<times> jsval"

text \<open>
  \<^verbatim>\<open>data.msg.join\<close> for a truthy \<^verbatim>\<open>data.msg\<close>: an array has the method; an object
  has whatever its own \<^verbatim>\<open>join\<close> property holds, which in a parsed body is never a
  function; a string, a number or a boolean has none.
\<close>

fun join_method :: "jsval \<Rightarrow> bool" where
  "join_method (JArr xs) = True"
| "join_method v = False"

definition join_not_callable :: "jsval \<Rightarrow> bool" where
  "join_not_callable m = (\<not> join_method m \<and> truthy (js_get m ''join''))"

definition alert_message :: "jsval \<Rightarrow> jsval" where
  "alert_message error =
     (let data = js_or (js_and (js_get error ''response'')
                               (js_get (js_get error ''response'') ''data'')) (JObj []);
          code = js_or (js_get data ''code'') (JStr []);
          msg = js_and (js_get data ''msg'')
                  (if join_method (js_get data ''msg'')
                   then JStr (array_join '', '' (case js_get data ''msg'' of JArr xs \<Rightarrow> xs | _ \<Rightarrow> []))
                   else js_get data ''msg'')
      in js_or (js_or (JStr (if truthy (js_or code msg)
                             then to_string code @ '': '' @ to_string msg else []))
                      (js_get error ''msg''))
               (js_get error ''message''))"

definition uploadFiles_catch :: "jsval \<Rightarrow> alert list \<times> outcome" where
  "uploadFiles_catch reason =
     (let error = dflt reason (JObj []) in
      if error = JNull then ([], Pending)
      else
        let data = js_or (js_and (js_get error ''response'')
                                 (js_get (js_get error ''response'') ''data'')) (JObj [])
        in
          if truthy (js_get data ''msg'') \<and> join_not_callable (js_get data ''msg'')
          then ([], Pending)
          else ([(JStr [], alert_message error, JStr ''error'')], Rejected error))"

section \<open>Upload: the promise\<close>

text \<open>
  \<^verbatim>\<open>send(...).then(onResponse).catch(onError)\<close> inside
  \<^verbatim>\<open>new Promise((resolve, reject) => ...)\<close>: the calls of \<^verbatim>\<open>showAlert\<close> made and the
  way the returned promise ends, for each answer of the transport.
\<close>

definition uploadFiles_promise :: "jsval \<Rightarrow> jsval \<Rightarrow> transport \<Rightarrow> alert list \<times> outcome" where
  "uploadFiles_promise DUPLICATE_CODE REPLACING_DATA_CODE t =
     (case t of
        Failed reason \<Rightarrow> uploadFiles_catch reason
      | Answered d \<Rightarrow>
          (case uploadFiles_then DUPLICATE_CODE REPLACING_DATA_CODE (send_then d) of
             Inl thrown \<Rightarrow> uploadFiles_catch thrown
           | Inr (Resolve v) \<Rightarrow> ([], Resolved v)
           | Inr (Reject v) \<Rightarrow> ([], Rejected v)))"

section \<open>Upload: the target URL\<close>

text \<open>
  Lines 45 to 66 of \<^verbatim>\<open>uploadFiles\<close>: the destructuring of \<^verbatim>\<open>props\<close>, the merge
  \<^verbatim>\<open>{ ...uploadParams, ...{ dir: dir || uploadParams.dir } }\<close> and the query string.
  The spread copies the own properties of \<^verbatim>\<open>uploadParams\<close> in their order (the index
  properties of an array or a string; nothing for another primitive) into a new object,
  and the second spread then sets \<^verbatim>\<open>dir\<close> on it: in place when the copy has the key,
  as the last property otherwise.
\<close>

definition own_entries :: "jsval \<Rightarrow> (string \<times> jsval) list" where
  "own_entries v =
     (case v of
        JObj ps \<Rightarrow> ps
      | JArr xs \<Rightarrow> zip (map show_nat [0..<length xs]) xs
      | JStr s \<Rightarrow> zip (map show_nat [0..<length s]) (map (\<lambda>c. JStr [c]) s)
      | _ \<Rightarrow> [])"

fun obj_set :: "(string \<times> 'v) list \<Rightarrow> string \<Rightarrow> 'v \<Rightarrow> (string \<times> 'v) list" where
  "obj_set [] k v = [(k, v)]"
| "obj_set ((k', v') # ps) k v = (if k' = k then (k, v) # ps else (k', v') # obj_set ps k v)"

definition merge_dir :: "jsval \<Rightarrow> jsval \<Rightarrow> (string \<times> jsval) list" where
  "merge_dir uploadParams dir =
     obj_set (own_entries uploadParams) ''dir'' (js_or dir (js_get uploadParams ''dir''))"

text \<open>
  \<^verbatim>\<open>Object.keys(uploadParams).filter(...).map(...)\<close>: the \<^verbatim>\<open>key=value\<close> pairs, before
  they are joined.
\<close>

definition query_pairs :: "(string \<times> jsval) list \<Rightarrow> string list" where
  "query_pairs uploadParams =
     map (\<lambda>paramName. paramName @ ''='' @ to_string (js_get (JObj uploadParams) paramName))
       (filter (\<lambda>paramName. js_get (JObj uploadParams) paramName \<noteq> JNull)
          (map fst uploadParams))"

definition paramsStr :: "(string \<times> jsval) list \<Rightarrow> string" where
  "paramsStr uploadParams = js_join ''&'' (query_pairs uploadParams)"

definition uploadFiles_url :: "jsval \<Rightarrow> jsval + jsval" where
  "uploadFiles_url props =
     (if nullish props then Inl (new_TypeError ''Cannot destructure property files of props'')
      else
        let config = dflt (js_get props ''config'') (JObj []) in
        if config = JNull
        then Inl (new_TypeError ''Cannot destructure property platform of props.config'')
        else
          let uploadPath = dflt (js_get config ''uploadPath'') (JStr []);
              uploadParams = dflt (js_get config ''uploadParams'') (JObj []);
              dir = js_get props ''dir'';
              url = js_or uploadPath (JStr [])
          in
            if \<not> truthy dir \<and> uploadParams = JNull
            then Inl (new_TypeError ''Cannot read properties of null (reading dir)'')
            else
              let params = paramsStr (merge_dir uploadParams dir)
              in Inr (if params \<noteq> [] then JStr (to_string url @ ''?'' @ params) else url))"

section \<open>List, search and token settings\<close>

text \<open>
  \<^verbatim>\<open>GALLERY_IMAGES_LIMIT\<close> is imported from \<^verbatim>\<open>../config\<close> and is a parameter. Each
  function destructures its one argument, which throws on \<^verbatim>\<open>null\<close> and
  \<^verbatim>\<open>undefined\<close>, builds the URL and calls \<^verbatim>\<open>send\<close>; the callback passed to
  \<^verbatim>\<open>then\<close> shapes the answer. A rejection of \<^verbatim>\<open>send\<close>, or an exception in the
  callback, rejects the returned promise.
\<close>

definition getListFiles_request :: "jsval \<Rightarrow> jsval \<Rightarrow> jsval + request" where
  "getListFiles_request GALLERY_IMAGES_LIMIT arg =
     (if nullish arg then Inl (new_TypeError ''Cannot destructure property dir of undefined'')
      else
        let dir = dflt (js_get arg ''dir'') (JStr []);
            container = dflt (js_get arg ''container'') (JStr []);
            platform = js_get arg ''platform'';
            offset = js_get arg ''offset'';
            uploadKey = js_get arg ''uploadKey'';
            baseUrl = getBaseUrl container platform;
            apiPath = ''list?'';
            directoryPath = (if truthy dir then ''dir='' @ to_string dir else []);
            offsetQuery = ''&offset='' @ to_string offset;
            limit = ''&limit='' @ to_string GALLERY_IMAGES_LIMIT;
            url = js_join [] [baseUrl, apiPath, directoryPath, offsetQuery, limit]
        in Inr \<lparr>req_url = JStr url, req_method = ''GET'', req_data = JNull,
                 req_headers = [(getSecretHeaderName platform, uploadKey)]\<rparr>)"



definition searchFiles_request :: "jsval \<Rightarrow> jsval + request" where
  "searchFiles_request arg =
     (if nullish arg then Inl (new_TypeError ''Cannot destructure property query of undefined'')
      else
        let query = dflt (js_get arg ''query'') (JStr []);
            container = dflt (js_get arg ''container'') (JStr []);
            platform = js_get arg ''platform'';
            offset = dflt (js_get arg ''offset'') (JNum 0);
            uploadKey = js_get arg ''uploadKey'';
            baseUrl = getBaseUrl container platform;
            apiPath = ''search?'';
            searchQuery = ''q='' @ to_string query;
            offsetQuery = ''&offset='' @ to_string offset;
            url = js_join [] [baseUrl, apiPath, searchQuery, offsetQuery]
        in Inr \<lparr>req_url = JStr url, req_method = ''GET'', req_data = JNull,
                 req_headers = [(getSecretHeaderName platform, uploadKey)]\<rparr>)"

definition getTokenSettings_then :: "jsval \<Rightarrow> jsval + jsval" where
  "getTokenSettings_then response0 =
     (let response = dflt response0 (JObj []) in
      if response = JNull
      then Inl (new_TypeError ''Cannot destructure property settings of object'')
      else
        let settings = dflt (js_get response ''settings'') (JObj []) in
        if settings = JNull
        then Inl (new_TypeError ''Cannot read properties of null (reading _products_enabled)'')
        else Inr (JObj [(''productsEnabled'',
                         JBool (strict_eq (js_get settings ''_products_enabled'') (JNum 1)))]))"

definition getTokenSettings_promise :: "transport \<Rightarrow> outcome" where
  "getTokenSettings_promise t =
     (case t of
        Failed reason \<Rightarrow> Rejected reason
      | Answered d \<Rightarrow>
          (case getTokenSettings_then (send_then d) of
             Inl thrown \<Rightarrow> Rejected thrown
           | Inr v \<Rightarrow> Resolved v))"

section \<open>The store\<close>

text \<open>
  Whether a function changes an object of its caller cannot be read off values: it takes
  objects with an identity. For that question the synchronous part of every request function
  is modelled a second time, over a store. A value is a primitive or a reference; the store
  is the list of all objects, an address is a position in it, and a new object is put at
  the end. Files and file lists are plain objects and arrays here. The two callbacks of
  \<^verbatim>\<open>props\<close> and \<^verbatim>\<open>config\<close> (\<^verbatim>\<open>showAlert\<close>, \<^verbatim>\<open>onUploadProgress\<close>) are passed on and
  never called in the synchronous part; they are not in the store. Temporary arrays
  (the results of \<^verbatim>\<open>Object.keys\<close>, \<^verbatim>\<open>filter\<close>, \<^verbatim>\<open>map\<close>, a spread into an array
  literal) are not allocated in the model: nothing can reach them.
\<close>

type_synonym addr = nat

datatype hval = HUndefined | HNull | HBool bool | HNum int | HStr string | HRef addr

datatype hobj = Obj "(string \<times> hval) list" | Arr "hval list"

type_synonym heap = "hobj list"

definition alloc :: "heap \<Rightarrow> hobj \<Rightarrow> addr \<times> heap" where
  "alloc h ob = (length h, h @ [ob])"

text \<open>\<^verbatim>\<open>{ x = literal }\<close> in a destructuring: the literal is built only when it is needed.\<close>

definition alloc_default :: "heap \<Rightarrow> hval \<Rightarrow> hobj \<Rightarrow> hval \<times> heap" where
  "alloc_default h v ob =
     (if v = HUndefined then (let (a, h') = alloc h ob in (HRef a, h')) else (v, h))"

fun h_truthy :: "hval \<Rightarrow> bool" where
  "h_truthy HUndefined = False"
| "h_truthy HNull = False"
| "h_truthy (HBool b) = b"
| "h_truthy (HNum n) = (n \<noteq> 0)"
| "h_truthy (HStr s) = (s \<noteq> [])"
| "h_truthy (HRef a) = True"

definition h_or :: "hval \<Rightarrow> hval \<Rightarrow> hval" where
  "h_or a b = (if h_truthy a then a else b)"

definition h_dflt :: "hval \<Rightarrow> hval \<Rightarrow> hval" where
  "h_dflt v d = (if v = HUndefined then d else v)"

definition h_nullish :: "hval \<Rightarrow> bool" where
  "h_nullish v = (v = HUndefined \<or> v = HNull)"

text \<open>
  A property read, at the names this file reads and on a receiver other than \<^verbatim>\<open>null\<close>
  and \<^verbatim>\<open>undefined\<close>; only an object has such a property.
\<close>

definition h_get :: "heap \<Rightarrow> hval \<Rightarrow> string \<Rightarrow> hval" where
  "h_get h v k =
     (case v of
        HRef a \<Rightarrow>
          (if a < length h
           then (case h ! a of
                   Obj ps \<Rightarrow> (case map_of ps k of Some x \<Rightarrow> x | None \<Rightarrow> HUndefined)
                 | Arr xs \<Rightarrow> HUndefined)
           else HUndefined)
      | _ \<Rightarrow> HUndefined)"

text \<open>
  The string of a value. An array that is met again while it is being joined gives the
  empty string, as the engines do; \<open>seen\<close> are the arrays being joined.
\<close>

function h_to_string :: "heap \<Rightarrow> addr list \<Rightarrow> hval \<Rightarrow> string" where
  "h_to_string h seen HUndefined = ''undefined''"
| "h_to_string h seen HNull = ''null''"
| "h_to_string h seen (HBool b) = (if b then ''true'' else ''false'')"
| "h_to_string h seen (HNum n) = show_int n"
| "h_to_string h seen (HStr s) = s"
| "h_to_string h seen (HRef a) =
     (if a < length h
      then (case h ! a of
              Obj ps \<Rightarrow> ''[object Object]''
            | Arr xs \<Rightarrow>
                (if a \<in> set seen then []
                 else js_join '',''
                        (map (\<lambda>x. if x = HUndefined \<or> x = HNull then []
                                  else h_to_string h (a # seen) x) xs)))
      else ''[object Object]'')"
  by pat_completeness auto
termination
proof (relation "measure (\<lambda>(h, seen, v). card ({..<length h} - set seen))", goal_cases)
  case 1
  show ?case by simp
next
  case (2 h seen a xs x)
  then have "{..<length h} - set (a # seen) \<subset> {..<length h} - set seen"
    by auto
  then show ?case by (simp add: psubset_card_mono)
qed

definition h_own_entries :: "heap \<Rightarrow> hval \<Rightarrow> (string \<times> hval) list" where
  "h_own_entries h v =
     (case v of
        HRef a \<Rightarrow>
          (if a < length h
           then (case h ! a of
                   Obj ps \<Rightarrow> ps
                 | Arr xs \<Rightarrow> zip (map show_nat [0..<length xs]) xs)
           else [])
      | HStr s \<Rightarrow> zip (map show_nat [0..<length s]) (map (\<lambda>c. HStr [c]) s)
      | _ \<Rightarrow> [])"

text \<open>What \<^verbatim>\<open>[...files]\<close> iterates over; \<open>None\<close> when the value is not iterable.\<close>

definition h_iterate :: "heap \<Rightarrow> hval \<Rightarrow> hval list option" where
  "h_iterate h v =
     (case v of
        HRef a \<Rightarrow>
          (if a < length h
           then (case h ! a of Obj ps \<Rightarrow> None | Arr xs \<Rightarrow> Some xs)
           else None)
      | HStr s \<Rightarrow> Some (map (\<lambda>c. HStr [c]) s)
      | _ \<Rightarrow> None)"

text \<open>\<^verbatim>\<open>array.push(v)\<close> on the array at an address.\<close>

definition push :: "addr \<Rightarrow> heap \<Rightarrow> hval \<Rightarrow> heap" where
  "push a h v = (case h ! a of Arr xs \<Rightarrow> h[a := Arr (xs @ [v])] | Obj ps \<Rightarrow> h)"

definition h_getBaseUrl :: "heap \<Rightarrow> hval \<Rightarrow> hval \<Rightarrow> string" where
  "h_getBaseUrl h container platform0 =
     (let platform = h_dflt platform0 (HStr ''filerobot'') in
      if platform = HStr ''filerobot''
      then ''https://api.filerobot.com/'' @ h_to_string h [] container @ ''/v3/''
      else ''https://'' @ h_to_string h [] container @ ''.api.airstore.io/v1/'')"

definition h_getSecretHeaderName :: "hval \<Rightarrow> string" where
  "h_getSecretHeaderName platform0 =
     (let platform = h_dflt platform0 (HStr ''filerobot'') in
      if platform = HStr ''filerobot'' then ''X-Filerobot-Key'' else ''X-Airstore-Secret-Key'')"

text \<open>
  What \<^verbatim>\<open>send\<close> is called with. The body is a value, or the entries appended to a
  \<^verbatim>\<open>FormData\<close> (name, value, file name), a host object that only \<^verbatim>\<open>uploadFiles\<close>
  holds. \<^verbatim>\<open>send\<close> and axios are taken not to write to the objects they are given.
\<close>

datatype payload = Plain hval | Multipart "(hval \<times> hval \<times> hval) list"

record hrequest =
  hreq_url :: hval
  hreq_method :: string
  hreq_data :: payload
  hreq_headers :: hval

section \<open>The request functions over the store\<close>

text \<open>
  Each function takes the store and its arguments and gives the store at its return with
  either the message of the TypeError it throws or the request it sends. For
  \<^verbatim>\<open>uploadFiles\<close> the result also holds the last value of its local variable
  \<^verbatim>\<open>uploadParams\<close>, which line 57 assigns.
\<close>

definition h_query_pairs :: "heap \<Rightarrow> hval \<Rightarrow> string list" where
  "h_query_pairs h uploadParams =
     map (\<lambda>paramName. paramName @ ''='' @ h_to_string h [] (h_get h uploadParams paramName))
       (filter (\<lambda>paramName. h_get h uploadParams paramName \<noteq> HNull)
          (map fst (h_own_entries h uploadParams)))"

text \<open>
  Lines 68 to 71: in JSON mode each file is pushed on \<^verbatim>\<open>jsonData.files_urls\<close>; otherwise
  each is appended to the form data with \<^verbatim>\<open>file.name || null\<close>, which throws on a file
  that is \<^verbatim>\<open>null\<close> or \<^verbatim>\<open>undefined\<close>. The result is the body for \<^verbatim>\<open>send\<close>.
\<close>

definition upload_body ::
  "heap \<Rightarrow> hval \<Rightarrow> hval \<Rightarrow> bool \<Rightarrow> addr \<Rightarrow> hval \<Rightarrow> (string + payload) \<times> heap" where
  "upload_body h files data_type isJson files_urls jsonData =
     (if \<not> h_truthy files then (Inr (if isJson then Plain jsonData else Multipart []), h)
      else
        (case h_iterate h files of
           None \<Rightarrow> (Inl ''files is not iterable'', h)
         | Some fs \<Rightarrow>
             if isJson then (Inr (Plain jsonData), foldl (push files_urls) h fs)
             else if list_ex h_nullish fs
             then (Inl ''Cannot read properties of undefined (reading name)'', h)
             else (Inr (Multipart (map (\<lambda>file. (data_type, file, h_or (h_get h file ''name'') HNull)) fs)),
                   h)))"

text \<open>The URL of line 52 with the query string of lines 60 to 66.\<close>

definition upload_url :: "heap \<Rightarrow> hval \<Rightarrow> hval \<Rightarrow> hval" where
  "upload_url h url uploadParams =
     (let params = js_join ''&'' (h_query_pairs h uploadParams)
      in if params \<noteq> [] then HStr (h_to_string h [] url @ ''?'' @ params) else url)"

text \<open>The headers literal of lines 78 to 81.\<close>

definition upload_headers :: "hval \<Rightarrow> hval \<Rightarrow> bool \<Rightarrow> hobj" where
  "upload_headers platform uploadKey isJson =
     Obj (obj_set [(h_getSecretHeaderName platform, uploadKey)] ''Content-Type''
            (HStr (if isJson then ''application/json'' else ''multipart/form-data'')))"

definition h_uploadFiles :: "heap \<Rightarrow> hval \<Rightarrow> (string + hrequest \<times> hval) \<times> heap" where
  "h_uploadFiles h0 props =
     (if h_nullish props then (Inl ''Cannot destructure property files of props'', h0)
      else
        let (files, h1) = alloc_default h0 (h_get h0 props ''files'') (Arr []);
            (config, h2) = alloc_default h1 (h_get h1 props ''config'') (Obj [])
        in
          if config = HNull
          then (Inl ''Cannot destructure property platform of props.config'', h2)
          else
            let platform = h_get h2 config ''platform'';
                uploadPath = h_dflt (h_get h2 config ''uploadPath'') (HStr []);
                (uploadParams, h3) = alloc_default h2 (h_get h2 config ''uploadParams'') (Obj []);
                uploadKey = h_dflt (h_get h3 config ''uploadKey'') (HStr []);
                data_type = h_dflt (h_get h3 props ''data_type'') (HStr ''files[]'');
                dir = h_get h3 props ''dir'';
                url = h_or uploadPath (HStr []);
                (files_urls, h4) = alloc h3 (Arr []);
                (jsonData, h5) = alloc h4 (Obj [(''files_urls'', HRef files_urls)]);
                isJson = (data_type = HStr ''application/json'')
            in
              if \<not> h_truthy dir \<and> uploadParams = HNull
              then (Inl ''Cannot read properties of null (reading dir)'', h5)
              else
                let (merged, h6) =
                      alloc h5 (Obj (obj_set (h_own_entries h5 uploadParams) ''dir''
                                       (h_or dir (h_get h5 uploadParams ''dir''))));
                    url' = upload_url h6 url (HRef merged);
                    (body, h7) = upload_body h6 files data_type isJson files_urls (HRef jsonData)
                in
                  (case body of
                     Inl thrown \<Rightarrow> (Inl thrown, h7)
                   | Inr data \<Rightarrow>
                       let (headers, h8) = alloc h7 (upload_headers platform uploadKey isJson)
                       in (Inr (\<lparr>hreq_url = url', hreq_method = ''POST'', hreq_data = data,
                                  hreq_headers = HRef headers\<rparr>, HRef merged), h8)))"

definition h_getListFiles :: "hval \<Rightarrow> heap \<Rightarrow> hval \<Rightarrow> (string + hrequest) \<times> heap" where
  "h_getListFiles GALLERY_IMAGES_LIMIT h0 arg =
     (if h_nullish arg then (Inl ''Cannot destructure property dir of undefined'', h0)
      else
        let dir = h_dflt (h_get h0 arg ''dir'') (HStr []);
            container = h_dflt (h_get h0 arg ''container'') (HStr []);
            platform = h_get h0 arg ''platform'';
            offset = h_get h0 arg ''offset'';
            uploadKey = h_get h0 arg ''uploadKey'';
            baseUrl = h_getBaseUrl h0 container platform;
            apiPath = ''list?'';
            directoryPath = (if h_truthy dir then ''dir='' @ h_to_string h0 [] dir else []);
            offsetQuery = ''&offset='' @ h_to_string h0 [] offset;
            limit = ''&limit='' @ h_to_string h0 [] GALLERY_IMAGES_LIMIT;
            url = js_join [] [baseUrl, apiPath, directoryPath, offsetQuery, limit];
            (headers, h1) = alloc h0 (Obj [(h_getSecretHeaderName platform, uploadKey)])
        in (Inr \<lparr>hreq_url = HStr url, hreq_method = ''GET'', hreq_data = Plain HNull,
                  hreq_headers = HRef headers\<rparr>, h1))"

definition h_searchFiles :: "heap \<Rightarrow> hval \<Rightarrow> (string + hrequest) \<times> heap" where
  "h_searchFiles h0 arg =
     (if h_nullish arg then (Inl ''Cannot destructure property query of undefined'', h0)
      else
        let query = h_dflt (h_get h0 arg ''query'') (HStr []);
            container = h_dflt (h_get h0 arg ''container'') (HStr []);
            platform = h_get h0 arg ''platform'';
            offset = h_dflt (h_get h0 arg ''offset'') (HNum 0);
            uploadKey = h_get h0 arg ''uploadKey'';
            baseUrl = h_getBaseUrl h0 container platform;
            apiPath = ''search?'';
            searchQuery = ''q='' @ h_to_string h0 [] query;
            offsetQuery = ''&offset='' @ h_to_string h0 [] offset;
            url = js_join [] [baseUrl, apiPath, searchQuery, offsetQuery];
            (headers, h1) = alloc h0 (Obj [(h_getSecretHeaderName platform, uploadKey)])
        in (Inr \<lparr>hreq_url = HStr url, hreq_method = ''GET'', hreq_data = Plain HNull,
                  hreq_headers = HRef headers\<rparr>, h1))"

text \<open>
  \<^verbatim>\<open>generateTags(url = '', autoTaggingProps = {}, language = 'en', container = '', platform,
  filerobotUploadKey = '', cloudimageToken = 'demo')\<close>.
\<close>

definition h_generateTags ::
  "heap \<Rightarrow> hval \<Rightarrow> hval \<Rightarrow> hval \<Rightarrow> hval \<Rightarrow> hval \<Rightarrow> hval \<Rightarrow> hval \<Rightarrow> (string + hrequest) \<times> heap" where
  "h_generateTags h0 url0 autoTaggingProps0 language0 container0 platform filerobotUploadKey0 cloudimageToken0 =
     (let url = h_dflt url0 (HStr []);
          (autoTaggingProps, h1) = alloc_default h0 autoTaggingProps0 (Obj []);
          language = h_dflt language0 (HStr ''en'');
          container = h_dflt container0 (HStr []);
          filerobotUploadKey = h_dflt filerobotUploadKey0 (HStr []);
          cloudimageToken = h_dflt cloudimageToken0 (HStr ''demo'')
      in
        if autoTaggingProps = HNull
        then (Inl ''Cannot destructure property key of autoTaggingProps'', h1)
        else
          let key = h_dflt (h_get h1 autoTaggingProps ''key'') (HStr []);
              provider = h_dflt (h_get h1 autoTaggingProps ''provider'') (HStr ''google'');
              confidence = h_dflt (h_get h1 autoTaggingProps ''confidence'') (HNum 60);
              limit = h_dflt (h_get h1 autoTaggingProps ''limit'') (HNum 10);
              base = h_getBaseUrl h1 container platform @ ''post-process/autotagging'';
              (headers, h2) = alloc h1 (Obj [(h_getSecretHeaderName platform, filerobotUploadKey)])
          in (Inr \<lparr>hreq_url = HStr (base @ ''?'' @ js_join ''&''
                      [''key='' @ h_to_string h1 [] key,
                       ''image_url='' @ h_to_string h1 [] url,
                       ''provider='' @ h_to_string h1 [] provider,
                       ''language='' @ h_to_string h1 [] language,
                       ''confidence='' @ h_to_string h1 [] confidence,
                       ''limit='' @ h_to_string h1 [] limit,
                       ''ci='' @ h_to_string h1 [] cloudimageToken]),
                    hreq_method = ''GET'', hreq_data = Plain HNull, hreq_headers = HRef headers\<rparr>, h2))"

definition h_saveMetaData :: "heap \<Rightarrow> hval \<Rightarrow> hval \<Rightarrow> hval \<Rightarrow> (string + hrequest) \<times> heap" where
  "h_saveMetaData h0 file_id properties arg =
     (if h_nullish arg then (Inl ''Cannot destructure property container of undefined'', h0)
      else
        let container = h_get h0 arg ''container'';
            platform = h_get h0 arg ''platform'';
            uploadKey = h_get h0 arg ''uploadKey'';
            base = h_getBaseUrl h0 container platform @ ''file/'';
            (data, h1) = alloc h0 (Obj [(''properties'', properties)]);
            (headers, h2) = alloc h1 (Obj [(h_getSecretHeaderName platform, uploadKey)])
        in (Inr \<lparr>hreq_url = HStr (base @ h_to_string h0 [] file_id @ ''/properties''),
                  hreq_method = ''PUT'', hreq_data = Plain (HRef data), hreq_headers = HRef headers\<rparr>, h2))"

definition h_updateProduct :: "heap \<Rightarrow> hval \<Rightarrow> hval \<Rightarrow> hval \<Rightarrow> (string + hrequest) \<times> heap" where
  "h_updateProduct h0 file_id product arg =
     (if h_nullish arg then (Inl ''Cannot destructure property container of undefined'', h0)
      else
        let container = h_get h0 arg ''container'';
            platform = h_get h0 arg ''platform'';
            uploadKey = h_get h0 arg ''uploadKey'';
            base = h_getBaseUrl h0 container platform;
            (data, h1) = alloc h0 (Obj [(''product'', product)]);
            (headers, h2) = alloc h1 (Obj [(h_getSecretHeaderName platform, uploadKey)])
        in (Inr \<lparr>hreq_url = HStr (base @ ''file/'' @ h_to_string h0 [] file_id @ ''/product''),
                  hreq_method = ''PUT'', hreq_data = Plain (HRef data), hreq_headers = HRef headers\<rparr>, h2))"

definition h_getTokenSettings :: "heap \<Rightarrow> hval \<Rightarrow> (string + hrequest) \<times> heap" where
  "h_getTokenSettings h0 arg =
     (if h_nullish arg then (Inl ''Cannot destructure property container of undefined'', h0)
      else
        let container = h_dflt (h_get h0 arg ''container'') (HStr []);
            platform = h_get h0 arg ''platform'';
            uploadKey = h_get h0 arg ''uploadKey'';
            baseUrl = h_getBaseUrl h0 container platform;
            (headers, h1) = alloc h0 (Obj [(h_getSecretHeaderName platform, uploadKey)])
        in (Inr \<lparr>hreq_url = HStr (js_join [] [baseUrl, ''settings'']), hreq_method = ''GET'',
                  hreq_data = Plain HNull, hreq_headers = HRef headers\<rparr>, h1))"

section \<open>Properties of the request layer\<close>

subsection \<open>Auxiliary facts\<close>

lemma js_get_str_nonnullish: "js_get r k = JStr s \<Longrightarrow> r \<noteq> JUndefined \<and> r \<noteq> JNull"
  by (cases r) auto
lemma js_get_entry: "distinct (map fst ps) \<Longrightarrow> (k, v) \<in> set ps \<Longrightarrow> js_get (JObj ps) k = v"
  by simp
lemma send_then_id: "d \<noteq> JUndefined \<Longrightarrow> send_then d = d"
  by (simp add: send_then_def dflt_def)
lemma send_then_defined [simp]: "send_then d \<noteq> JUndefined"
  by (simp add: send_then_def dflt_def)
lemma strict_eq_JStr [simp]: "strict_eq v (JStr s) = (v = JStr s)"
  by (cases v) (auto simp: strict_eq_def)
lemma strict_eq_JNum [simp]: "strict_eq v (JNum n) = (v = JNum n)"
  by (cases v) (auto simp: strict_eq_def)
text \<open>
  The response handler of \<^verbatim>\<open>uploadFiles\<close> on a response that is not \<^verbatim>\<open>null\<close> and
  whose \<^verbatim>\<open>upload\<close> is not \<^verbatim>\<open>null\<close>: the four branches, with the defaults applied.
\<close>

lemma uploadFiles_then_defined:
  assumes "response \<noteq> JUndefined" and "response \<noteq> JNull"
    and "dflt (js_get response ''upload'') (JObj []) = upload" and "upload \<noteq> JNull"
  shows "uploadFiles_then D R response =
     (if dflt (js_get response ''status'') (JStr ''success'') = JStr ''success'' \<and> truthy (js_get response ''file'')
      then Inr (Resolve (JArr [JArr [js_get response ''file''], JBool (strict_eq (js_get upload ''state'') D),
                               JBool (strict_eq (js_get upload ''state'') R)]))
      else if dflt (js_get response ''status'') (JStr ''success'') = JStr ''success'' \<and>
              truthy (dflt (js_get response ''files'') (JArr []))
      then Inr (Resolve (JArr [dflt (js_get response ''files'') (JArr []), JBool (strict_eq (js_get upload ''state'') D),
                               JBool (strict_eq (js_get upload ''state'') R)]))
      else if dflt (js_get response ''status'') (JStr ''success'') = JStr ''error''
      then Inl (new_Error (to_string (js_get response ''msg'') @ '' '' @ to_string (js_get response ''hint'')))
      else Inr (Reject response))"
proof -
  have "upload \<noteq> JUndefined" using assms(3) by (auto simp: dflt_def split: if_splits)
  then have "\<not> nullish upload" using assms(4) by (simp add: nullish_def)
  moreover have "\<not> nullish response" using assms(1,2) by (simp add: nullish_def)
  ultimately show ?thesis
    unfolding uploadFiles_then_def Let_def assms(3) by simp
qed
lemma uploadFiles_then_throws:
  "uploadFiles_then D R response = Inl thrown \<Longrightarrow> \<exists>m. thrown = new_Error m \<or> thrown = new_TypeError m"
  by (auto simp: uploadFiles_then_def Let_def split: if_splits)
text \<open>
  An error object without \<^verbatim>\<open>response\<close> and \<^verbatim>\<open>msg\<close>, as the response handler
  throws them, is shown by its \<^verbatim>\<open>message\<close>.
\<close>

lemma alert_message_plain:
  "js_get error ''response'' = JUndefined \<Longrightarrow> js_get error ''msg'' = JUndefined \<Longrightarrow>
   alert_message error = js_get error ''message''"
  by (simp add: alert_message_def js_or_def js_and_def)
lemma uploadFiles_catch_plain:
  assumes "error \<noteq> JUndefined" "error \<noteq> JNull" "js_get error ''response'' = JUndefined"
    "js_get error ''msg'' = JUndefined"
  shows "uploadFiles_catch error = ([(JStr [], js_get error ''message'', JStr ''error'')], Rejected error)"
  using assms
  by (simp add: uploadFiles_catch_def alert_message_plain dflt_def js_or_def js_and_def
      join_not_callable_def)
lemma uploadFiles_catch_new_Error:
  "uploadFiles_catch (new_Error m) = ([(JStr [], JStr m, JStr ''error'')], Rejected (new_Error m))"
  by (subst uploadFiles_catch_plain) (simp_all add: new_Error_def)
lemma uploadFiles_catch_new_TypeError:
  "uploadFiles_catch (new_TypeError m) = ([(JStr [], JStr m, JStr ''error'')], Rejected (new_TypeError m))"
  by (subst uploadFiles_catch_plain) (simp_all add: new_TypeError_def)
text \<open>
  For an object with distinct keys, walking the keys and reading each value by name is
  walking the entries.
\<close>

lemma query_pairs_entries:
  assumes "distinct (map fst ps)"
  shows "query_pairs ps =
           map (\<lambda>(k, v). k @ ''='' @ to_string v) (filter (\<lambda>(k, v). v \<noteq> JNull) ps)"
proof -
  have a: "filter (\<lambda>k. js_get (JObj ps) k \<noteq> JNull) (map fst ps) =
             map fst (filter (\<lambda>(k, v). v \<noteq> JNull) ps)"
    unfolding filter_map comp_def
    by (rule arg_cong [where f = "map fst"], rule filter_cong)
       (use assms in \<open>auto simp del: js_get.simps simp: js_get_entry\<close>)
  have b: "map (\<lambda>k. k @ ''='' @ to_string (js_get (JObj ps) k)) (map fst (filter (\<lambda>(k, v). v \<noteq> JNull) ps)) =
           map (\<lambda>(k, v). k @ ''='' @ to_string v) (filter (\<lambda>(k, v). v \<noteq> JNull) ps)"
    unfolding map_map comp_def
    by (rule map_cong) (use assms in \<open>auto simp del: js_get.simps simp: js_get_entry\<close>)
  show ?thesis unfolding query_pairs_def a b ..
qed
lemma obj_set_keys:
  "map fst (obj_set ps k v) = (if k \<in> fst ` set ps then map fst ps else map fst ps @ [k])"
  by (induction ps) force+
lemma obj_set_distinct: "distinct (map fst ps) \<Longrightarrow> distinct (map fst (obj_set ps k v))"
  by (simp add: obj_set_keys)
lemma obj_set_map_of: "map_of (obj_set ps k v) = (map_of ps)(k \<mapsto> v)"
  by (induction ps) (auto simp: fun_eq_iff)
lemma obj_set_fresh: "map_of ps k = None \<Longrightarrow> obj_set ps k v = ps @ [(k, v)]"
  by (induction ps) (auto split: if_splits)
lemma obj_set_same: "distinct (map fst ps) \<Longrightarrow> map_of ps k = Some v \<Longrightarrow> obj_set ps k v = ps"
  by (induction ps) (auto split: if_splits simp: map_of_eq_None_iff[symmetric])
lemma js_join_snoc: "js_join sep (xs @ [y]) = (if xs = [] then y else js_join sep xs @ sep @ y)"
  by (induction sep xs rule: js_join.induct) auto
lemma js_join_Nil_iff: "[] \<notin> set xs \<Longrightarrow> js_join sep xs = [] \<longleftrightarrow> xs = []"
  by (induction sep xs rule: js_join.induct) auto
lemma uploadFiles_url_mapping:
  assumes "\<not> nullish props"
    and "dflt (js_get props ''config'') (JObj []) = config" and "config \<noteq> JNull"
    and "dflt (js_get config ''uploadParams'') (JObj []) = JObj ps"
    and "js_or (dflt (js_get config ''uploadPath'') (JStr [])) (JStr []) = url0"
    and "paramsStr (obj_set ps ''dir'' (js_or (js_get props ''dir'') (js_get (JObj ps) ''dir''))) = q"
  shows "uploadFiles_url props = Inr (if q \<noteq> [] then JStr (to_string url0 @ ''?'' @ q) else url0)"
  unfolding uploadFiles_url_def Let_def assms(2,4,5) merge_dir_def
  using assms(1,3,6) by (simp add: own_entries_def del: js_get.simps)
subsection \<open>Upload: success responses\<close>

text \<open>
  Claim C1. For a server response with status \<^verbatim>\<open>"success"\<close>: with a \<^verbatim>\<open>file\<close>,
  \<^verbatim>\<open>uploadFiles\<close> resolves with \<^verbatim>\<open>[[file], isDuplicate, isReplacingData]\<close>; otherwise,
  with \<^verbatim>\<open>files\<close>, it resolves with \<^verbatim>\<open>[files, isDuplicate, isReplacingData]\<close>; the two
  flags are \<^verbatim>\<open>upload.state === DUPLICATE_CODE\<close> and
  \<^verbatim>\<open>upload.state === REPLACING_DATA_CODE\<close>, both false when \<^verbatim>\<open>upload\<close> is absent.

  The code tests \<^verbatim>\<open>file\<close> and \<^verbatim>\<open>files\<close> for truthiness, not for presence, and reads
  \<^verbatim>\<open>upload.state\<close> before it looks at the status, which throws when \<^verbatim>\<open>upload\<close> is
  \<^verbatim>\<open>null\<close>. The statement proved is therefore: for every response with status
  \<^verbatim>\<open>"success"\<close> whose \<^verbatim>\<open>upload\<close> is absent or not \<^verbatim>\<open>null\<close>, a truthy \<^verbatim>\<open>file\<close>
  resolves with \<^verbatim>\<open>[[file], isDuplicate, isReplacingData]\<close>, a truthy \<^verbatim>\<open>files\<close> next to
  a falsy or absent \<^verbatim>\<open>file\<close> resolves with \<^verbatim>\<open>[files, isDuplicate, isReplacingData]\<close>,
  no alert is shown, and both flags are false when \<^verbatim>\<open>upload\<close> is absent (the two
  constants of \<^verbatim>\<open>../config\<close> being defined).
\<close>

theorem uploadFiles_success_resolves:
  assumes status: "js_get response ''status'' = JStr ''success''"
    and upload: "dflt (js_get response ''upload'') (JObj []) = upload"
    and nonnull: "upload \<noteq> JNull"
    and d: "isDuplicate = strict_eq (js_get upload ''state'') DUPLICATE_CODE"
    and r: "isReplacingData = strict_eq (js_get upload ''state'') REPLACING_DATA_CODE"
  shows "(truthy (js_get response ''file'') \<longrightarrow>
           uploadFiles_promise DUPLICATE_CODE REPLACING_DATA_CODE (Answered response) =
             ([], Resolved (JArr [JArr [js_get response ''file''], JBool isDuplicate, JBool isReplacingData])))
       \<and> (\<not> truthy (js_get response ''file'') \<and> truthy (js_get response ''files'') \<longrightarrow>
           uploadFiles_promise DUPLICATE_CODE REPLACING_DATA_CODE (Answered response) =
             ([], Resolved (JArr [js_get response ''files'', JBool isDuplicate, JBool isReplacingData])))
       \<and> (js_get response ''upload'' = JUndefined \<and> DUPLICATE_CODE \<noteq> JUndefined \<and>
            REPLACING_DATA_CODE \<noteq> JUndefined \<longrightarrow> \<not> isDuplicate \<and> \<not> isReplacingData)"
proof -
  have nn: "response \<noteq> JUndefined" "response \<noteq> JNull"
    using js_get_str_nonnullish [OF status] by simp_all
  have s: "send_then response = response" using nn by (simp add: send_then_id)
  have st: "dflt (js_get response ''status'') (JStr ''success'') = JStr ''success''"
    by (simp add: status dflt_def)
  note th = uploadFiles_then_defined [OF nn upload nonnull, of DUPLICATE_CODE REPLACING_DATA_CODE]
  have c1: "truthy (js_get response ''file'') \<Longrightarrow>
      uploadFiles_promise DUPLICATE_CODE REPLACING_DATA_CODE (Answered response) =
        ([], Resolved (JArr [JArr [js_get response ''file''], JBool isDuplicate, JBool isReplacingData]))"
    by (simp add: uploadFiles_promise_def s th st d r)
  have c2: "\<not> truthy (js_get response ''file'') \<Longrightarrow> truthy (js_get response ''files'') \<Longrightarrow>
      uploadFiles_promise DUPLICATE_CODE REPLACING_DATA_CODE (Answered response) =
        ([], Resolved (JArr [js_get response ''files'', JBool isDuplicate, JBool isReplacingData]))"
  proof -
    assume a: "\<not> truthy (js_get response ''file'')" "truthy (js_get response ''files'')"
    then have "dflt (js_get response ''files'') (JArr []) = js_get response ''files''"
      by (auto simp: dflt_def)
    then show ?thesis using a by (simp add: uploadFiles_promise_def s th st d r)
  qed
  have c3: "js_get response ''upload'' = JUndefined \<Longrightarrow> DUPLICATE_CODE \<noteq> JUndefined \<Longrightarrow>
      REPLACING_DATA_CODE \<noteq> JUndefined \<Longrightarrow> \<not> isDuplicate \<and> \<not> isReplacingData"
    using upload by (auto simp: d r dflt_def strict_eq_def)
  from c1 c2 c3 show ?thesis by blast
qed
text \<open>
  The two examples of the specification: a single file without \<^verbatim>\<open>upload\<close>, and a list of
  files whose upload state is the duplicate code.
\<close>

theorem uploadFiles_success_resolves_witness:
  "uploadFiles_promise (JStr ''DUPLICATE'') (JStr ''REPLACING'')
     (Answered (JObj [(''status'', JStr ''success''), (''file'', JObj [(''id'', JNum 1)])])) =
     ([], Resolved (JArr [JArr [JObj [(''id'', JNum 1)]], JBool False, JBool False]))
   \<and> uploadFiles_promise (JStr ''DUPLICATE'') (JStr ''REPLACING'')
     (Answered (JObj [(''status'', JStr ''success''),
                      (''files'', JArr [JObj [(''id'', JNum 1)], JObj [(''id'', JNum 2)]]),
                      (''upload'', JObj [(''state'', JStr ''DUPLICATE'')])])) =
     ([], Resolved (JArr [JArr [JObj [(''id'', JNum 1)], JObj [(''id'', JNum 2)]], JBool True, JBool False]))"
  using uploadFiles_success_resolves [of
      "JObj [(''status'', JStr ''success''), (''file'', JObj [(''id'', JNum 1)])]" "JObj []"
      False "JStr ''DUPLICATE''" False "JStr ''REPLACING''"]
    uploadFiles_success_resolves [of
      "JObj [(''status'', JStr ''success''),
             (''files'', JArr [JObj [(''id'', JNum 1)], JObj [(''id'', JNum 2)]]),
             (''upload'', JObj [(''state'', JStr ''DUPLICATE'')])]"
      "JObj [(''state'', JStr ''DUPLICATE'')]" True "JStr ''DUPLICATE''" False "JStr ''REPLACING''"]
  by (simp add: dflt_def strict_eq_def)
text \<open>
  Where the claim as worded fails: a success response with a file and \<^verbatim>\<open>upload: null\<close>
  is rejected with a TypeError (after an alert); a success response whose \<^verbatim>\<open>file\<close> is
  present but \<^verbatim>\<open>null\<close> resolves with its \<^verbatim>\<open>files\<close>, not with \<^verbatim>\<open>[null]\<close>; and one whose
  \<^verbatim>\<open>files\<close> is present but \<^verbatim>\<open>null\<close> is rejected with the raw response.
\<close>

theorem uploadFiles_success_counterexample:
  "uploadFiles_promise (JStr ''DUPLICATE'') (JStr ''REPLACING'')
     (Answered (JObj [(''status'', JStr ''success''), (''file'', JObj [(''id'', JNum 1)]),
                      (''upload'', JNull)])) =
     ([(JStr [], JStr ''Cannot read properties of null (reading state)'', JStr ''error'')],
      Rejected (new_TypeError ''Cannot read properties of null (reading state)''))
   \<and> uploadFiles_promise (JStr ''DUPLICATE'') (JStr ''REPLACING'')
     (Answered (JObj [(''status'', JStr ''success''), (''file'', JNull),
                      (''files'', JArr [JObj [(''id'', JNum 1)]])])) =
     ([], Resolved (JArr [JArr [JObj [(''id'', JNum 1)]], JBool False, JBool False]))
   \<and> uploadFiles_promise (JStr ''DUPLICATE'') (JStr ''REPLACING'')
     (Answered (JObj [(''status'', JStr ''success''), (''files'', JNull)])) =
     ([], Rejected (JObj [(''status'', JStr ''success''), (''files'', JNull)]))"
  by (simp add: uploadFiles_promise_def uploadFiles_then_def uploadFiles_catch_def alert_message_def
      send_then_def nullish_def dflt_def js_or_def js_and_def strict_eq_def new_TypeError_def
      join_not_callable_def)
subsection \<open>Upload: error responses\<close>

text \<open>
  Claim C2. For a server response with status \<^verbatim>\<open>"error"\<close>, \<^verbatim>\<open>uploadFiles\<close> rejects, and
  the message of the rejection holds the \<^verbatim>\<open>msg\<close> and \<^verbatim>\<open>hint\<close> of the server,
  concatenated.

  Proved for every such response whose \<^verbatim>\<open>upload\<close> is absent or not \<^verbatim>\<open>null\<close>: the promise
  is rejected with \<^verbatim>\<open>new Error(msg + ' ' + hint)\<close>, after one alert showing that message.
\<close>

theorem uploadFiles_error_rejects:
  assumes status: "js_get response ''status'' = JStr ''error''"
    and upload: "dflt (js_get response ''upload'') (JObj []) \<noteq> JNull"
    and message: "message = to_string (js_get response ''msg'') @ '' '' @ to_string (js_get response ''hint'')"
  shows "uploadFiles_promise DUPLICATE_CODE REPLACING_DATA_CODE (Answered response) =
           ([(JStr [], JStr message, JStr ''error'')], Rejected (new_Error message))
         \<and> js_get (new_Error message) ''message'' = JStr message"
proof -
  have nn: "response \<noteq> JUndefined" "response \<noteq> JNull"
    using js_get_str_nonnullish [OF status] by simp_all
  have s: "send_then response = response" using nn by (simp add: send_then_id)
  have st: "dflt (js_get response ''status'') (JStr ''success'') = JStr ''error''"
    by (simp add: status dflt_def)
  have "uploadFiles_then DUPLICATE_CODE REPLACING_DATA_CODE response = Inl (new_Error message)"
    by (simp add: uploadFiles_then_defined [OF nn refl upload] st message)
  then show ?thesis
    by (simp add: uploadFiles_promise_def s uploadFiles_catch_new_Error) (simp add: new_Error_def)
qed
theorem uploadFiles_error_rejects_witness:
  "uploadFiles_promise (JStr ''DUPLICATE'') (JStr ''REPLACING'')
     (Answered (JObj [(''status'', JStr ''error''), (''msg'', JStr ''bad''), (''hint'', JStr ''retry'')])) =
     ([(JStr [], JStr ''bad retry'', JStr ''error'')], Rejected (new_Error ''bad retry''))"
  using uploadFiles_error_rejects [of
      "JObj [(''status'', JStr ''error''), (''msg'', JStr ''bad''), (''hint'', JStr ''retry'')]"
      "''bad retry''" "JStr ''DUPLICATE''" "JStr ''REPLACING''"]
  by (simp add: dflt_def)
text \<open>
  With \<^verbatim>\<open>upload: null\<close> the handler throws at \<^verbatim>\<open>upload.state\<close>, before it reaches the
  test of the status: the rejection is a TypeError, and neither \<^verbatim>\<open>msg\<close> nor \<^verbatim>\<open>hint\<close> is in
  its message.
\<close>

theorem uploadFiles_error_rejects_counterexample:
  "uploadFiles_promise (JStr ''DUPLICATE'') (JStr ''REPLACING'')
     (Answered (JObj [(''status'', JStr ''error''), (''msg'', JStr ''bad''), (''hint'', JStr ''retry''),
                      (''upload'', JNull)])) =
     ([(JStr [], JStr ''Cannot read properties of null (reading state)'', JStr ''error'')],
      Rejected (new_TypeError ''Cannot read properties of null (reading state)''))"
  by (simp add: uploadFiles_promise_def uploadFiles_then_def send_then_def nullish_def dflt_def
      uploadFiles_catch_new_TypeError)
subsection \<open>Upload: the query string\<close>

text \<open>
  Claim C3. For every \<^verbatim>\<open>uploadParams\<close> mapping, the query string that \<^verbatim>\<open>uploadFiles\<close>
  appends to \<^verbatim>\<open>uploadPath\<close> holds exactly the entries whose value is not \<^verbatim>\<open>null\<close>, as
  \<^verbatim>\<open>key=value\<close> pairs joined with \<^verbatim>\<open>&\<close>, nothing encoded; \<^verbatim>\<open>{dir: null, tag: "x"}\<close>
  without a \<^verbatim>\<open>dir\<close> argument gives \<^verbatim>\<open>tag=x\<close>.

  The entries are those of the merged mapping, not of \<^verbatim>\<open>uploadParams\<close>: the code first
  sets \<^verbatim>\<open>dir\<close> to \<^verbatim>\<open>dir || uploadParams.dir\<close>. Proved: for every \<^verbatim>\<open>uploadParams\<close>
  object and every \<^verbatim>\<open>dir\<close> argument, the query string is the \<^verbatim>\<open>key=value\<close> pairs of the
  entries of the merged mapping whose value is not \<^verbatim>\<open>null\<close>, in their order, joined with
  \<^verbatim>\<open>&\<close>; it follows \<^verbatim>\<open>uploadPath\<close> and a \<^verbatim>\<open>?\<close> when it is not empty, and nothing
  is appended when it is.
\<close>

theorem uploadFiles_query_string:
  assumes props: "\<not> nullish props"
    and config: "dflt (js_get props ''config'') (JObj []) = config" "config \<noteq> JNull"
    and params: "dflt (js_get config ''uploadParams'') (JObj []) = JObj uploadParams"
    and keys: "distinct (map fst uploadParams)"
    and url0: "js_or (dflt (js_get config ''uploadPath'') (JStr [])) (JStr []) = url0"
    and merged: "merged = obj_set uploadParams ''dir''
                   (js_or (js_get props ''dir'') (js_get (JObj uploadParams) ''dir''))"
    and query: "query = js_join ''&''
                  (map (\<lambda>(k, v). k @ ''='' @ to_string v) (filter (\<lambda>(k, v). v \<noteq> JNull) merged))"
  shows "uploadFiles_url props =
           Inr (if query = [] then url0 else JStr (to_string url0 @ ''?'' @ query))
         \<and> map_of merged = (map_of uploadParams)(''dir'' \<mapsto>
              js_or (js_get props ''dir'') (js_get (JObj uploadParams) ''dir''))"
proof -
  have "distinct (map fst merged)" unfolding merged using keys by (rule obj_set_distinct)
  then have "paramsStr merged = query"
    unfolding paramsStr_def query by (simp only: query_pairs_entries)
  from uploadFiles_url_mapping [OF props config params url0 this [unfolded merged]]
  show ?thesis by (auto simp: merged obj_set_map_of)
qed
text \<open>The example of the claim.\<close>

theorem uploadFiles_query_string_witness:
  "uploadFiles_url (JObj [(''config'', JObj [(''uploadPath'', JStr ''//c.api.airstore.io/upload''),
       (''uploadParams'', JObj [(''dir'', JNull), (''tag'', JStr ''x'')])])]) =
     Inr (JStr ''//c.api.airstore.io/upload?tag=x'')"
  using uploadFiles_query_string [of
      "JObj [(''config'', JObj [(''uploadPath'', JStr ''//c.api.airstore.io/upload''),
         (''uploadParams'', JObj [(''dir'', JNull), (''tag'', JStr ''x'')])])]"
      "JObj [(''uploadPath'', JStr ''//c.api.airstore.io/upload''),
         (''uploadParams'', JObj [(''dir'', JNull), (''tag'', JStr ''x'')])]"
      "[(''dir'', JNull), (''tag'', JStr ''x'')]"
      "JStr ''//c.api.airstore.io/upload''"
      "[(''dir'', JNull), (''tag'', JStr ''x'')]"
      "''tag=x''"]
  by (simp add: nullish_def dflt_def js_or_def)
text \<open>
  Read on \<^verbatim>\<open>uploadParams\<close> itself the claim fails: \<^verbatim>\<open>{tag: "x"}\<close> without a
  \<^verbatim>\<open>dir\<close> argument gives \<^verbatim>\<open>tag=x&dir=undefined\<close>, and \<^verbatim>\<open>{dir: "a"}\<close> with the argument
  \<^verbatim>\<open>"b"\<close> gives \<^verbatim>\<open>dir=b\<close>.
\<close>

theorem uploadFiles_query_string_counterexample:
  "uploadFiles_url (JObj [(''config'', JObj [(''uploadPath'', JStr ''/upload''),
       (''uploadParams'', JObj [(''tag'', JStr ''x'')])])]) =
     Inr (JStr ''/upload?tag=x&dir=undefined'')
   \<and> uploadFiles_url (JObj [(''dir'', JStr ''b''), (''config'', JObj [(''uploadPath'', JStr ''/upload''),
       (''uploadParams'', JObj [(''dir'', JStr ''a'')])])]) =
     Inr (JStr ''/upload?dir=b'')"
  by (simp add: uploadFiles_url_def nullish_def dflt_def js_or_def merge_dir_def own_entries_def
      paramsStr_def query_pairs_def)
subsection \<open>Upload: the rejection handler\<close>

text \<open>
  Claim C4. For every rejection inside \<^verbatim>\<open>uploadFiles\<close> (transport failure or
  application-level error), \<^verbatim>\<open>showAlert\<close> is called exactly once, with
  \<^verbatim>\<open>"{code}: {msg}"\<close> when the payload of the error carries a \<^verbatim>\<open>code\<close> or a \<^verbatim>\<open>msg\<close>
  (a list joined with a comma and a space) and with the message of the error otherwise, and
  the promise is then rejected with the error.

  The code decides by truthiness: a payload whose \<^verbatim>\<open>code\<close> and \<^verbatim>\<open>msg\<close> are both falsy
  falls back to the error, and the fallback is \<^verbatim>\<open>error.msg || error.message\<close>. Proved: for
  every reason other than \<^verbatim>\<open>null\<close> and \<^verbatim>\<open>undefined\<close> whose payload \<^verbatim>\<open>msg\<close> is not an
  object with a truthy \<^verbatim>\<open>join\<close> property, a failed transport makes exactly one call
  \<^verbatim>\<open>showAlert('', message, 'error')\<close> and rejects with the reason, where the message is
  \<^verbatim>\<open>"{code}: {msg}"\<close> when \<^verbatim>\<open>data.code || ''\<close> or the (joined) \<^verbatim>\<open>data.msg\<close> is truthy,
  and \<^verbatim>\<open>error.msg || error.message\<close> otherwise; and whenever the response handler throws,
  there is exactly one alert, with the message of the thrown error, and the promise is
  rejected with that error.
\<close>

theorem uploadFiles_rejection_alert:
  assumes error: "error \<noteq> JUndefined" "error \<noteq> JNull"
    and data: "js_or (js_and (js_get error ''response'')
                             (js_get (js_get error ''response'') ''data'')) (JObj []) = data"
    and callable: "\<not> (truthy (js_get data ''msg'') \<and> join_not_callable (js_get data ''msg''))"
    and code: "js_or (js_get data ''code'') (JStr []) = code"
    and msg: "(case js_get data ''msg'' of JArr xs \<Rightarrow> JStr (array_join '', '' xs) | m \<Rightarrow> m) = msg"
    and message: "(if truthy code \<or> truthy msg then JStr (to_string code @ '': '' @ to_string msg)
                   else js_or (js_get error ''msg'') (js_get error ''message'')) = message"
  shows "uploadFiles_promise DUPLICATE_CODE REPLACING_DATA_CODE (Failed error) =
           ([(JStr [], message, JStr ''error'')], Rejected error)
       \<and> (\<forall>d thrown. uploadFiles_then DUPLICATE_CODE REPLACING_DATA_CODE (send_then d) = Inl thrown \<longrightarrow>
             uploadFiles_promise DUPLICATE_CODE REPLACING_DATA_CODE (Answered d) =
               ([(JStr [], js_get thrown ''message'', JStr ''error'')], Rejected thrown))"
proof -
  have m: "js_and (js_get data ''msg'')
             (if join_method (js_get data ''msg'')
              then JStr (array_join '', '' (case js_get data ''msg'' of JArr xs \<Rightarrow> xs | _ \<Rightarrow> []))
              else js_get data ''msg'') = msg"
    unfolding msg [symmetric] by (cases "js_get data ''msg''") (simp_all add: js_and_def)
  have "alert_message error = message"
    unfolding alert_message_def Let_def data code m message [symmetric]
    by (simp add: js_or_def)
  then have c1: "uploadFiles_promise DUPLICATE_CODE REPLACING_DATA_CODE (Failed error) =
      ([(JStr [], message, JStr ''error'')], Rejected error)"
    using error callable by (simp add: uploadFiles_promise_def uploadFiles_catch_def Let_def data dflt_def)
  have c2: "uploadFiles_promise DUPLICATE_CODE REPLACING_DATA_CODE (Answered d) =
      ([(JStr [], js_get thrown ''message'', JStr ''error'')], Rejected thrown)"
    if "uploadFiles_then DUPLICATE_CODE REPLACING_DATA_CODE (send_then d) = Inl thrown" for d thrown
    using uploadFiles_then_throws [OF that] that
    by (auto simp: uploadFiles_promise_def uploadFiles_catch_new_Error uploadFiles_catch_new_TypeError)
       (simp_all add: new_Error_def new_TypeError_def)
  from c1 c2 show ?thesis by blast
qed
theorem uploadFiles_rejection_alert_witness:
  "uploadFiles_promise (JStr ''DUPLICATE'') (JStr ''REPLACING'')
     (Failed (JObj [(''message'', JStr ''Request failed with status code 403''),
                    (''response'', JObj [(''data'', JObj [(''code'', JStr ''KEY_INVALID''),
                                                          (''msg'', JArr [JStr ''bad key'', JStr ''retry''])])])])) =
     ([(JStr [], JStr ''KEY_INVALID: bad key, retry'', JStr ''error'')],
      Rejected (JObj [(''message'', JStr ''Request failed with status code 403''),
                      (''response'', JObj [(''data'', JObj [(''code'', JStr ''KEY_INVALID''),
                                                            (''msg'', JArr [JStr ''bad key'', JStr ''retry''])])])]))
   \<and> uploadFiles_promise (JStr ''DUPLICATE'') (JStr ''REPLACING'')
     (Failed (JObj [(''message'', JStr ''Network Error'')])) =
     ([(JStr [], JStr ''Network Error'', JStr ''error'')],
      Rejected (JObj [(''message'', JStr ''Network Error'')]))"
  using uploadFiles_rejection_alert [of
      "JObj [(''message'', JStr ''Request failed with status code 403''),
             (''response'', JObj [(''data'', JObj [(''code'', JStr ''KEY_INVALID''),
                                                   (''msg'', JArr [JStr ''bad key'', JStr ''retry''])])])]"
      "JObj [(''code'', JStr ''KEY_INVALID''), (''msg'', JArr [JStr ''bad key'', JStr ''retry''])]"
      "JStr ''KEY_INVALID''" "JStr ''bad key, retry''" "JStr ''KEY_INVALID: bad key, retry''"
      "JStr ''DUPLICATE''" "JStr ''REPLACING''"]
    uploadFiles_rejection_alert [of "JObj [(''message'', JStr ''Network Error'')]" "JObj []" "JStr []"
      JUndefined "JStr ''Network Error''" "JStr ''DUPLICATE''" "JStr ''REPLACING''"]
  by (simp add: js_or_def js_and_def join_not_callable_def array_join_def)
text \<open>
  A payload that carries \<^verbatim>\<open>code: 0\<close> and \<^verbatim>\<open>msg: ""\<close> is shown as the message of the
  error, not as \<^verbatim>\<open>"0: "\<close>. A payload whose \<^verbatim>\<open>msg\<close> is an object with a truthy \<^verbatim>\<open>join\<close>
  makes the handler throw: no alert, and the promise is never settled.
\<close>

theorem uploadFiles_rejection_alert_counterexample:
  "uploadFiles_promise (JStr ''DUPLICATE'') (JStr ''REPLACING'')
     (Failed (JObj [(''message'', JStr ''Request failed with status code 500''),
                    (''response'', JObj [(''data'', JObj [(''code'', JNum 0), (''msg'', JStr [])])])])) =
     ([(JStr [], JStr ''Request failed with status code 500'', JStr ''error'')],
      Rejected (JObj [(''message'', JStr ''Request failed with status code 500''),
                      (''response'', JObj [(''data'', JObj [(''code'', JNum 0), (''msg'', JStr [])])])]))
   \<and> uploadFiles_promise (JStr ''DUPLICATE'') (JStr ''REPLACING'')
     (Failed (JObj [(''message'', JStr ''Request failed with status code 500''),
                    (''response'', JObj [(''data'', JObj [(''msg'', JObj [(''join'', JBool True)])])])])) =
     ([], Pending)"
  by (simp add: uploadFiles_promise_def uploadFiles_catch_def alert_message_def dflt_def js_or_def
      js_and_def join_not_callable_def)
subsection \<open>Upload: other response shapes\<close>

subsection \<open>List\<close>

subsection \<open>Token settings\<close>

text \<open>
  Claim C7. For every server response, \<^verbatim>\<open>getTokenSettings\<close> resolves with
  \<^verbatim>\<open>{productsEnabled: b}\<close>, b being true exactly when \<^verbatim>\<open>settings._products_enabled\<close> is the
  integer 1.

  Proved for every response other than \<^verbatim>\<open>null\<close> whose \<^verbatim>\<open>settings\<close> is absent or not
  \<^verbatim>\<open>null\<close>: the defaults cover an absent body and absent settings, and every value of
  \<^verbatim>\<open>_products_enabled\<close> but the number 1 gives false.
\<close>

theorem getTokenSettings_productsEnabled:
  assumes response: "send_then d = response" "response \<noteq> JNull"
    and settings: "dflt (js_get response ''settings'') (JObj []) = settings" "settings \<noteq> JNull"
  shows "getTokenSettings_promise (Answered d) =
           Resolved (JObj [(''productsEnabled'', JBool (js_get settings ''_products_enabled'' = JNum 1))])"
proof -
  have "dflt response (JObj []) = response" using response(1) by (auto simp: dflt_def)
  then show ?thesis
    using response(2) settings
    by (simp add: getTokenSettings_promise_def getTokenSettings_then_def response(1) Let_def)
qed
theorem getTokenSettings_productsEnabled_witness:
  "getTokenSettings_promise (Answered (JObj [(''settings'', JObj [(''_products_enabled'', JNum 1)])])) =
     Resolved (JObj [(''productsEnabled'', JBool True)])
   \<and> getTokenSettings_promise (Answered (JObj [(''settings'', JObj [(''_products_enabled'', JNum 0)])])) =
     Resolved (JObj [(''productsEnabled'', JBool False)])
   \<and> getTokenSettings_promise (Answered (JObj [(''settings'', JObj [(''_products_enabled'', JStr ''1'')])])) =
     Resolved (JObj [(''productsEnabled'', JBool False)])
   \<and> getTokenSettings_promise (Answered (JObj [])) =
     Resolved (JObj [(''productsEnabled'', JBool False)])"
  using getTokenSettings_productsEnabled [of "JObj [(''settings'', JObj [(''_products_enabled'', JNum 1)])]"
      "JObj [(''settings'', JObj [(''_products_enabled'', JNum 1)])]" "JObj [(''_products_enabled'', JNum 1)]"]
    getTokenSettings_productsEnabled [of "JObj [(''settings'', JObj [(''_products_enabled'', JNum 0)])]"
      "JObj [(''settings'', JObj [(''_products_enabled'', JNum 0)])]" "JObj [(''_products_enabled'', JNum 0)]"]
    getTokenSettings_productsEnabled [of "JObj [(''settings'', JObj [(''_products_enabled'', JStr ''1'')])]"
      "JObj [(''settings'', JObj [(''_products_enabled'', JStr ''1'')])]" "JObj [(''_products_enabled'', JStr ''1'')]"]
    getTokenSettings_productsEnabled [of "JObj []" "JObj []" "JObj []"]
  by (simp add: send_then_def dflt_def)
text \<open>
  A response with \<^verbatim>\<open>settings: null\<close>, and the response \<^verbatim>\<open>null\<close>, make the callback throw a
  TypeError: the promise is rejected, not resolved with \<^verbatim>\<open>{productsEnabled: false}\<close>.
\<close>

theorem getTokenSettings_productsEnabled_counterexample:
  "getTokenSettings_promise (Answered (JObj [(''settings'', JNull)])) =
     Rejected (new_TypeError ''Cannot read properties of null (reading _products_enabled)'')
   \<and> getTokenSettings_promise (Answered JNull) =
     Rejected (new_TypeError ''Cannot destructure property settings of object'')"
  by (simp add: getTokenSettings_promise_def getTokenSettings_then_def send_then_def dflt_def)
subsection \<open>Upload: an absent directory\<close>

text \<open>
  Claim C9. When the \<^verbatim>\<open>dir\<close> argument of \<^verbatim>\<open>uploadFiles\<close> is falsy: if \<^verbatim>\<open>uploadParams\<close>
  has no \<^verbatim>\<open>dir\<close> key, the merge adds \<^verbatim>\<open>dir: undefined\<close>, which passes the filter, and the
  query string ends with the pair \<^verbatim>\<open>dir=undefined\<close>; if its \<^verbatim>\<open>dir\<close> is \<^verbatim>\<open>null\<close>, no
  \<^verbatim>\<open>dir\<close> pair is written; every other value of its \<^verbatim>\<open>dir\<close> is written as the pair
  \<^verbatim>\<open>dir=value\<close>. Here \<open>rest\<close> is the list of pairs of the entries of \<^verbatim>\<open>uploadParams\<close>
  whose value is not \<^verbatim>\<open>null\<close>.
\<close>

theorem uploadFiles_dir_undefined:
  assumes props: "\<not> nullish props"
    and config: "dflt (js_get props ''config'') (JObj []) = config" "config \<noteq> JNull"
    and params: "dflt (js_get config ''uploadParams'') (JObj []) = JObj uploadParams"
    and keys: "distinct (map fst uploadParams)"
    and url0: "js_or (dflt (js_get config ''uploadPath'') (JStr [])) (JStr []) = url0"
    and nodir: "\<not> truthy (js_get props ''dir'')"
    and rest: "rest = map (\<lambda>(k, v). k @ ''='' @ to_string v)
                        (filter (\<lambda>(k, v). v \<noteq> JNull) uploadParams)"
  shows "(map_of uploadParams ''dir'' = None \<longrightarrow>
            uploadFiles_url props =
              Inr (JStr (to_string url0 @ ''?'' @ js_join ''&'' (rest @ [''dir=undefined'']))))
       \<and> (map_of uploadParams ''dir'' = Some JNull \<longrightarrow>
            uploadFiles_url props =
              Inr (if rest = [] then url0 else JStr (to_string url0 @ ''?'' @ js_join ''&'' rest))
            \<and> ''dir'' \<notin> fst ` set (filter (\<lambda>(k, v). v \<noteq> JNull) uploadParams))
       \<and> (\<forall>v. map_of uploadParams ''dir'' = Some v \<and> v \<noteq> JNull \<longrightarrow>
            uploadFiles_url props = Inr (JStr (to_string url0 @ ''?'' @ js_join ''&'' rest))
            \<and> ''dir='' @ to_string v \<in> set rest)"
proof -
  let ?d = "js_or (js_get props ''dir'') (js_get (JObj uploadParams) ''dir'')"
  let ?merged = "obj_set uploadParams ''dir'' ?d"
  have dist: "distinct (map fst ?merged)" using keys by (rule obj_set_distinct)
  have ne: "[] \<notin> set (query_pairs ps)" for ps by (auto simp: query_pairs_def)
  have url: "uploadFiles_url props =
      Inr (if query_pairs ?merged = [] then url0
           else JStr (to_string url0 @ ''?'' @ js_join ''&'' (query_pairs ?merged)))"
    using uploadFiles_url_mapping [OF props config params url0 refl]
    by (simp add: paramsStr_def js_join_Nil_iff [OF ne])
  have absent: "query_pairs ?merged = rest @ [''dir=undefined'']"
    if "map_of uploadParams ''dir'' = None"
  proof -
    have "?d = JUndefined" using that nodir by (simp add: js_or_def)
    then have "?merged = uploadParams @ [(''dir'', JUndefined)]"
      using that by (simp add: obj_set_fresh)
    then show ?thesis using dist by (simp add: query_pairs_entries rest)
  qed
  have present: "query_pairs ?merged = rest" if "map_of uploadParams ''dir'' = Some v" for v
  proof -
    have "?d = v" using that nodir by (simp add: js_or_def)
    then have "?merged = uploadParams" using that keys by (simp add: obj_set_same)
    then show ?thesis using keys by (simp add: query_pairs_entries rest)
  qed
  have c1: "map_of uploadParams ''dir'' = None \<Longrightarrow>
      uploadFiles_url props =
        Inr (JStr (to_string url0 @ ''?'' @ js_join ''&'' (rest @ [''dir=undefined''])))"
    using url absent by simp
  have c2: "map_of uploadParams ''dir'' = Some JNull \<Longrightarrow>
      uploadFiles_url props =
        Inr (if rest = [] then url0 else JStr (to_string url0 @ ''?'' @ js_join ''&'' rest))
      \<and> ''dir'' \<notin> fst ` set (filter (\<lambda>(k, v). v \<noteq> JNull) uploadParams)"
  proof -
    assume a: "map_of uploadParams ''dir'' = Some JNull"
    have "b = JNull" if "(''dir'', b) \<in> set uploadParams" for b
      using map_of_is_SomeI [OF keys that] a by simp
    then have "''dir'' \<notin> fst ` set (filter (\<lambda>(k, v). v \<noteq> JNull) uploadParams)"
      by auto
    then show ?thesis using url present [OF a] by simp
  qed
  have c3: "map_of uploadParams ''dir'' = Some v \<Longrightarrow> v \<noteq> JNull \<Longrightarrow>
      uploadFiles_url props = Inr (JStr (to_string url0 @ ''?'' @ js_join ''&'' rest))
      \<and> ''dir='' @ to_string v \<in> set rest" for v
  proof -
    assume a: "map_of uploadParams ''dir'' = Some v" "v \<noteq> JNull"
    then have "(''dir'', v) \<in> set (filter (\<lambda>(k, v). v \<noteq> JNull) uploadParams)"
      by (auto dest: map_of_SomeD)
    then have "(\<lambda>(k, v). k @ ''='' @ to_string v) (''dir'', v) \<in> set rest"
      unfolding rest set_map by (rule imageI)
    then have m: "''dir='' @ to_string v \<in> set rest" by simp
    then have "rest \<noteq> []" by auto
    then show ?thesis using url present [OF a(1)] m by simp
  qed
  from c1 c2 c3 show ?thesis by blast
qed
theorem uploadFiles_dir_undefined_witness:
  "uploadFiles_url (JObj [(''config'', JObj [(''uploadPath'', JStr ''/upload''),
       (''uploadParams'', JObj [(''tag'', JStr ''x'')])])]) =
     Inr (JStr ''/upload?tag=x&dir=undefined'')
   \<and> uploadFiles_url (JObj [(''config'', JObj [(''uploadPath'', JStr ''/upload''),
       (''uploadParams'', JObj [(''tag'', JStr ''x''), (''dir'', JNull)])])]) =
     Inr (JStr ''/upload?tag=x'')
   \<and> uploadFiles_url (JObj [(''config'', JObj [(''uploadPath'', JStr ''/upload''),
       (''uploadParams'', JObj [(''tag'', JStr ''x''), (''dir'', JStr [])])])]) =
     Inr (JStr ''/upload?tag=x&dir='')"
  using uploadFiles_dir_undefined [of
      "JObj [(''config'', JObj [(''uploadPath'', JStr ''/upload''),
         (''uploadParams'', JObj [(''tag'', JStr ''x'')])])]"
      "JObj [(''uploadPath'', JStr ''/upload''), (''uploadParams'', JObj [(''tag'', JStr ''x'')])]"
      "[(''tag'', JStr ''x'')]" "JStr ''/upload''" "[''tag=x'']"]
    uploadFiles_dir_undefined [of
      "JObj [(''config'', JObj [(''uploadPath'', JStr ''/upload''),
         (''uploadParams'', JObj [(''tag'', JStr ''x''), (''dir'', JNull)])])]"
      "JObj [(''uploadPath'', JStr ''/upload''),
         (''uploadParams'', JObj [(''tag'', JStr ''x''), (''dir'', JNull)])]"
      "[(''tag'', JStr ''x''), (''dir'', JNull)]" "JStr ''/upload''" "[''tag=x'']"]
    uploadFiles_dir_undefined [of
      "JObj [(''config'', JObj [(''uploadPath'', JStr ''/upload''),
         (''uploadParams'', JObj [(''tag'', JStr ''x''), (''dir'', JStr [])])])]"
      "JObj [(''uploadPath'', JStr ''/upload''),
         (''uploadParams'', JObj [(''tag'', JStr ''x''), (''dir'', JStr [])])]"
      "[(''tag'', JStr ''x''), (''dir'', JStr [])]" "JStr ''/upload''" "[''tag=x'', ''dir='']"]
  by (simp add: nullish_def dflt_def js_or_def)
subsection \<open>The default of the offset\<close>

text \<open>
  Claim C10. Called without an offset, \<^verbatim>\<open>searchFiles\<close> takes 0 and its URL ends with
  \<^verbatim>\<open>&offset=0\<close>, while \<^verbatim>\<open>getListFiles\<close> has no default and its URL holds
  \<^verbatim>\<open>&offset=undefined\<close>.
\<close>

theorem offset_default_search_not_list:
  assumes arg: "\<not> nullish arg"
    and offset: "js_get arg ''offset'' = JUndefined"
    and container: "dflt (js_get arg ''container'') (JStr []) = container"
  shows "map_sum id req_url (searchFiles_request arg) =
           Inr (JStr (getBaseUrl container (js_get arg ''platform'') @ ''search?'' @
                      ''q='' @ to_string (dflt (js_get arg ''query'') (JStr [])) @ ''&offset=0''))
       \<and> map_sum id req_url (getListFiles_request GALLERY_IMAGES_LIMIT arg) =
           Inr (JStr (getBaseUrl container (js_get arg ''platform'') @ ''list?'' @
                      (if truthy (dflt (js_get arg ''dir'') (JStr []))
                       then ''dir='' @ to_string (dflt (js_get arg ''dir'') (JStr [])) else []) @
                      ''&offset=undefined'' @ ''&limit='' @ to_string GALLERY_IMAGES_LIMIT))"
  using arg
  by (simp add: searchFiles_request_def getListFiles_request_def Let_def offset container
      show_int_def digit_char_def dflt_def [of JUndefined])
theorem offset_default_search_not_list_witness:
  "map_sum id req_url (searchFiles_request (JObj [(''query'', JStr ''cat''), (''container'', JStr ''acme'')])) =
     Inr (JStr ''https://api.filerobot.com/acme/v3/search?q=cat&offset=0'')
   \<and> map_sum id req_url (getListFiles_request (JNum 50)
        (JObj [(''query'', JStr ''cat''), (''container'', JStr ''acme'')])) =
     Inr (JStr ''https://api.filerobot.com/acme/v3/list?&offset=undefined&limit=50'')"
  using offset_default_search_not_list [of "JObj [(''query'', JStr ''cat''), (''container'', JStr ''acme'')]"
      "JStr ''acme''" "JNum 50"]
  by (simp add: nullish_def dflt_def getBaseUrl_def show_int_def digit_char_def)

end
